theory Spec2Isabelle
  imports Complex_Main
begin

section \<open>Data model\<close>

text \<open>
  The wagering engine of \<^verbatim>\<open>server/routes.ts\<close> and the ledger of
  \<^verbatim>\<open>server/storage.ts\<close>. A finite JavaScript number is modelled as a real number, so
  the rounding of IEEE doubles is outside the model. An amount of the ledger is a string
  that \<^verbatim>\<open>parseFloat\<close> reads: it is modelled as the \<open>jsNumber\<close> it denotes, which is a
  finite number, an infinity or \<^verbatim>\<open>NaN\<close> (\<^verbatim>\<open>parseFloat\<close> after \<^verbatim>\<open>toString\<close> is the
  identity on all of them). The amounts of the session games are validated numbers and
  stay reals. Every call of \<^verbatim>\<open>Math.random()\<close> and of \<^verbatim>\<open>Date.now()\<close> is an argument of
  the handler that makes it. A handler takes the state of the process (the ledger and the
  three session maps) and returns the new state with its HTTP response. The free-text
  fields of a record (\<^verbatim>\<open>betChoice\<close>, \<^verbatim>\<open>result\<close>, \<^verbatim>\<open>description\<close>) are left out.
\<close>

type_synonym userId = string

text \<open>
  What \<^verbatim>\<open>parseFloat\<close> can return: a finite number, \<^verbatim>\<open>Infinity\<close>, \<^verbatim>\<open>-Infinity\<close> or
  \<^verbatim>\<open>NaN\<close>, with the arithmetic and the comparison of JavaScript on them.
\<close>

datatype jsNumber = Num real | Infinity | NegInfinity | NaN

fun jsNeg :: "jsNumber \<Rightarrow> jsNumber" where
  "jsNeg (Num a) = Num (- a)"
| "jsNeg Infinity = NegInfinity"
| "jsNeg NegInfinity = Infinity"
| "jsNeg NaN = NaN"

fun jsAdd :: "jsNumber \<Rightarrow> jsNumber \<Rightarrow> jsNumber" where
  "jsAdd NaN y = NaN"
| "jsAdd x NaN = NaN"
| "jsAdd (Num a) (Num b) = Num (a + b)"
| "jsAdd Infinity NegInfinity = NaN"
| "jsAdd NegInfinity Infinity = NaN"
| "jsAdd Infinity y = Infinity"
| "jsAdd x Infinity = Infinity"
| "jsAdd NegInfinity y = NegInfinity"
| "jsAdd x NegInfinity = NegInfinity"

definition jsSub :: "jsNumber \<Rightarrow> jsNumber \<Rightarrow> jsNumber" where
  "jsSub x y = jsAdd x (jsNeg y)"

text \<open>The sign of a number that is not \<^verbatim>\<open>NaN\<close>: \<open>-1\<close>, 0 or 1.\<close>

fun jsSign :: "jsNumber \<Rightarrow> int" where
  "jsSign (Num a) = (if a < 0 then - 1 else if a = 0 then 0 else 1)"
| "jsSign Infinity = 1"
| "jsSign NegInfinity = - 1"
| "jsSign NaN = 0"

fun jsMul :: "jsNumber \<Rightarrow> jsNumber \<Rightarrow> jsNumber" where
  "jsMul NaN y = NaN"
| "jsMul x NaN = NaN"
| "jsMul (Num a) (Num b) = Num (a * b)"
| "jsMul x y =
     (if jsSign x * jsSign y = 0 then NaN
      else if jsSign x * jsSign y > 0 then Infinity else NegInfinity)"

fun jsLt :: "jsNumber \<Rightarrow> jsNumber \<Rightarrow> bool" where
  "jsLt NaN y = False"
| "jsLt x NaN = False"
| "jsLt (Num a) (Num b) = (a < b)"
| "jsLt x NegInfinity = False"
| "jsLt Infinity y = False"
| "jsLt NegInfinity y = True"
| "jsLt x Infinity = True"

datatype outcome = Win | Loss

datatype txType = DepositTx | BetTx | WinTx

record Balance =
  amount :: jsNumber
  currency :: string

record Bet =
  bet_userId :: userId
  bet_gameType :: string
  bet_betAmount :: jsNumber
  bet_outcome :: outcome
  bet_payout :: jsNumber

record Transaction =
  tx_userId :: userId
  tx_type :: txType
  tx_amount :: jsNumber

record TowerGame =
  tower_userId :: userId
  tower_betAmount :: real
  currentLevel :: nat
  tower_currentMultiplier :: real
  tower_isActive :: bool

record CrashGame =
  crash_betAmount :: real
  startTime :: real
  crashPoint :: real
  crash_isActive :: bool
  cashedOut :: bool

record MinesGame =
  mines_betAmount :: real
  mineCount :: real
  gridSize :: real
  minePositions :: "real list"
  revealedTiles :: "real list"
  mines_isActive :: bool
  mines_currentMultiplier :: real

text \<open>
  \<^verbatim>\<open>getBalance\<close> returns the first balance row that has the \<^verbatim>\<open>userId\<close>, and
  \<^verbatim>\<open>updateBalance\<close> writes that row: \<open>balances\<close> maps a user to this row. Bets and
  transactions are append-only.
  The session maps \<^verbatim>\<open>towerGames\<close>, \<^verbatim>\<open>crashGames\<close> and \<^verbatim>\<open>minesGames\<close> are keyed by
  the user as in the source.
\<close>

record state =
  balances :: "userId \<rightharpoonup> Balance"
  bets :: "Bet list"
  transactions :: "Transaction list"
  towerGames :: "userId \<rightharpoonup> TowerGame"
  crashGames :: "userId \<rightharpoonup> CrashGame"
  minesGames :: "userId \<rightharpoonup> MinesGame"

text \<open>
  The 400 responses, named as the error taxonomy names them:
  \<^verbatim>\<open>'Insufficient balance'\<close> is \<open>InsufficientFunds\<close>,
  \<^verbatim>\<open>'You already have an active ... game'\<close> is \<open>SessionAlreadyActive\<close>,
  \<^verbatim>\<open>'No active ... game found'\<close> is \<open>NoActiveSession\<close>,
  \<^verbatim>\<open>'Maximum level reached'\<close> and \<^verbatim>\<open>'Tile already revealed'\<close> are \<open>InvalidMove\<close>,
  \<^verbatim>\<open>'Must reveal at least one tile before cashing out'\<close> is \<open>NothingToCashOut\<close>,
  \<^verbatim>\<open>'Already cashed out'\<close> is \<open>AlreadyCashedOut\<close>, and a \<^verbatim>\<open>ZodError\<close> is
  \<open>ValidationError\<close>.
\<close>

datatype error =
    ValidationError
  | InsufficientFunds
  | SessionAlreadyActive
  | NoActiveSession
  | NothingToCashOut
  | InvalidMove
  | AlreadyCashedOut

datatype difficulty = Easy | Medium | Hard

datatype direction = Over | Under

datatype coinSide = Heads | Tails

datatype betResult = Flip coinSide | Wheel int

datatype response =
    Error error
  | BalanceView jsNumber string
  | BetPlaced betResult outcome jsNumber
  | TowerStarted nat real real
  | TowerWon nat real real bool
  | TowerLost nat real
  | TowerCashedOut real nat real
  | NoActiveGame
  | TowerStatus nat real real real
  | CrashStarted real real
  | CrashCashedOut real real real
  | CrashCrashed real real
  | CrashAutoCrashed real
  | CrashStatus real real real real
  | DiceRolled int bool real real direction
  | MinesStarted real real real
  | MinesHit real "real list" real
  | MinesSafe real "real list" real real
  | MinesCashedOut real real
  | MinesStatus "real list" real real real real real

section \<open>Ledger store\<close>

definition getBalance :: "state \<Rightarrow> userId \<Rightarrow> Balance option" where
  "getBalance st uid = balances st uid"

text \<open>
  \<^verbatim>\<open>createBalance\<close> inserts a new row under a fresh id and returns it. When the user
  already has a row the new one comes after it, so \<^verbatim>\<open>getBalance\<close> goes on returning the
  old row.
\<close>

definition createBalance :: "state \<Rightarrow> userId \<Rightarrow> jsNumber \<Rightarrow> string \<Rightarrow> state \<times> Balance" where
  "createBalance st uid a c =
     (let b = \<lparr>amount = a, currency = c\<rparr>
      in (if balances st uid = None then st\<lparr>balances := (balances st)(uid \<mapsto> b)\<rparr> else st, b))"

definition updateBalance :: "state \<Rightarrow> userId \<Rightarrow> jsNumber \<Rightarrow> state" where
  "updateBalance st uid a =
     (case getBalance st uid of
        Some existingBalance \<Rightarrow>
          st\<lparr>balances := (balances st)(uid \<mapsto> existingBalance\<lparr>amount := a\<rparr>)\<rparr>
      | None \<Rightarrow>
          st\<lparr>balances := (balances st)(uid \<mapsto> \<lparr>amount = a, currency = ''USDT''\<rparr>)\<rparr>)"

definition createBet :: "state \<Rightarrow> Bet \<Rightarrow> state" where
  "createBet st b = st\<lparr>bets := bets st @ [b]\<rparr>"

definition createTransaction :: "state \<Rightarrow> Transaction \<Rightarrow> state" where
  "createTransaction st t = st\<lparr>transactions := transactions st @ [t]\<rparr>"

text \<open>\<^verbatim>\<open>parseFloat(balance?.amount || '0')\<close>: the amount of the row, 0 when there is none.\<close>

definition amountOrZero :: "Balance option \<Rightarrow> jsNumber" where
  "amountOrZero b = (case b of None \<Rightarrow> Num 0 | Some r \<Rightarrow> amount r)"

text \<open>\<^verbatim>\<open>GET /api/balance\<close>: the row of the user, created with amount 0 when absent.\<close>

definition balanceRoute :: "userId \<Rightarrow> state \<Rightarrow> state \<times> response" where
  "balanceRoute uid st =
     (case getBalance st uid of
        Some balance \<Rightarrow> (st, BalanceView (amount balance) (currency balance))
      | None \<Rightarrow>
          (let (st1, balance) = createBalance st uid (Num 0) ''USDT''
           in (st1, BalanceView (amount balance) (currency balance))))"

section \<open>Request validation\<close>

text \<open>
  The \<^verbatim>\<open>betAmount\<close> schema of the Tower, Crash, Dice and Mines requests: a decimal with at
  most 8 fractional digits (the regular expression), greater than 0 and at most 1,000,000.
  The argument is the number that the decimal string of the request denotes.
\<close>

definition isInteger :: "real \<Rightarrow> bool" where
  "isInteger x = (of_int \<lfloor>x\<rfloor> = x)"

definition validBetAmount :: "real \<Rightarrow> bool" where
  "validBetAmount v = (isInteger (v * 100000000) \<and> v > 0 \<and> v \<le> 1000000)"

section \<open>Tower\<close>

fun towerWinChance :: "difficulty \<Rightarrow> real" where
  "towerWinChance Easy = 0.66"
| "towerWinChance Medium = 0.50"
| "towerWinChance Hard = 0.33"

fun towerMultiplier :: "difficulty \<Rightarrow> real" where
  "towerMultiplier Easy = 1.5"
| "towerMultiplier Medium = 2.0"
| "towerMultiplier Hard = 3.0"

definition MAX_TOWER_LEVEL :: nat where
  "MAX_TOWER_LEVEL = 8"

text \<open>
  \<^verbatim>\<open>POST /api/tower/start\<close>. A game the user already has is deleted (\<^verbatim>\<open>End any existing
  game\<close>), then the bet is debited and a new game is stored.
\<close>

definition towerStart :: "userId \<Rightarrow> real \<Rightarrow> state \<Rightarrow> state \<times> response" where
  "towerStart uid betAmount st =
     (if \<not> validBetAmount betAmount then (st, Error ValidationError)
      else case getBalance st uid of
        None \<Rightarrow> (st, Error InsufficientFunds)
      | Some balance \<Rightarrow>
          if jsLt (amount balance) (Num betAmount) then (st, Error InsufficientFunds)
          else
            (let st1 = (if towerGames st uid \<noteq> None
                        then st\<lparr>towerGames := (towerGames st)(uid := None)\<rparr> else st);
                 newBalance = jsSub (amount balance) (Num betAmount);
                 st2 = updateBalance st1 uid newBalance;
                 st3 = createTransaction st2
                         \<lparr>tx_userId = uid, tx_type = BetTx, tx_amount = Num betAmount\<rparr>;
                 game = \<lparr>tower_userId = uid, tower_betAmount = betAmount, currentLevel = 0,
                         tower_currentMultiplier = 1, tower_isActive = True\<rparr>;
                 st4 = st3\<lparr>towerGames := (towerGames st3)(uid \<mapsto> game)\<rparr>
             in (st4, TowerStarted (currentLevel game) (tower_currentMultiplier game)
                        (tower_betAmount game * tower_currentMultiplier game))))"

text \<open>
  \<^verbatim>\<open>POST /api/tower/play\<close>; \<open>rnd\<close> is the draw of \<^verbatim>\<open>Math.random()\<close>. A win updates the
  game in the map; a loss deletes it and records the losing bet.
\<close>

definition towerPlay :: "userId \<Rightarrow> difficulty \<Rightarrow> real \<Rightarrow> state \<Rightarrow> state \<times> response" where
  "towerPlay uid d rnd st =
     (case towerGames st uid of
        None \<Rightarrow> (st, Error NoActiveSession)
      | Some game \<Rightarrow>
          if \<not> tower_isActive game then (st, Error NoActiveSession)
          else if currentLevel game \<ge> MAX_TOWER_LEVEL then (st, Error InvalidMove)
          else if rnd < towerWinChance d then
            (let game1 = game\<lparr>currentLevel := currentLevel game + 1,
                               tower_currentMultiplier :=
                                 tower_currentMultiplier game * towerMultiplier d\<rparr>;
                 potentialPayout = tower_betAmount game1 * tower_currentMultiplier game1
             in (st\<lparr>towerGames := (towerGames st)(uid \<mapsto> game1)\<rparr>,
                 TowerWon (currentLevel game1) (tower_currentMultiplier game1) potentialPayout
                   (currentLevel game1 \<ge> MAX_TOWER_LEVEL)))
          else
            (let st1 = st\<lparr>towerGames := (towerGames st)(uid := None)\<rparr>;
                 st2 = createBet st1
                         \<lparr>bet_userId = uid, bet_gameType = ''tower'',
                          bet_betAmount = Num (tower_betAmount game), bet_outcome = Loss,
                          bet_payout = Num 0\<rparr>
             in (st2, TowerLost (currentLevel game) (tower_betAmount game))))"

text \<open>\<^verbatim>\<open>POST /api/tower/cashout\<close>: snapshot, delete, credit, record.\<close>

definition towerCashout :: "userId \<Rightarrow> state \<Rightarrow> state \<times> response" where
  "towerCashout uid st =
     (case towerGames st uid of
        None \<Rightarrow> (st, Error NoActiveSession)
      | Some game \<Rightarrow>
          if \<not> tower_isActive game then (st, Error NoActiveSession)
          else
            (let st1 = st\<lparr>towerGames := (towerGames st)(uid := None)\<rparr>;
                 payout = tower_betAmount game * tower_currentMultiplier game;
                 newBalance = jsAdd (amountOrZero (getBalance st1 uid)) (Num payout);
                 st2 = updateBalance st1 uid newBalance;
                 st3 = createBet st2
                         \<lparr>bet_userId = uid, bet_gameType = ''tower'',
                          bet_betAmount = Num (tower_betAmount game), bet_outcome = Win,
                          bet_payout = Num payout\<rparr>;
                 st4 = createTransaction st3
                         \<lparr>tx_userId = uid, tx_type = WinTx, tx_amount = Num payout\<rparr>
             in (st4, TowerCashedOut payout (currentLevel game) (tower_currentMultiplier game))))"

text \<open>\<^verbatim>\<open>GET /api/tower/status\<close>.\<close>

definition towerStatus :: "userId \<Rightarrow> state \<Rightarrow> state \<times> response" where
  "towerStatus uid st =
     (case towerGames st uid of
        None \<Rightarrow> (st, NoActiveGame)
      | Some game \<Rightarrow>
          if \<not> tower_isActive game then (st, NoActiveGame)
          else (st, TowerStatus (currentLevel game) (tower_currentMultiplier game)
                      (tower_betAmount game * tower_currentMultiplier game)
                      (tower_betAmount game)))"

text \<open>
  A run of \<^verbatim>\<open>POST /api/tower/play\<close> requests of one user, each with its difficulty
  and its draw, with the responses in order.
\<close>

fun towerPlays :: "userId \<Rightarrow> (difficulty \<times> real) list \<Rightarrow> state \<Rightarrow> state \<times> response list" where
  "towerPlays uid [] st = (st, [])"
| "towerPlays uid ((d, rnd) # moves) st =
     (let (st1, r) = towerPlay uid d rnd st;
          (st2, rs) = towerPlays uid moves st1
      in (st2, r # rs))"

fun isTowerWon :: "response \<Rightarrow> bool" where
  "isTowerWon (TowerWon l m p mx) = True"
| "isTowerWon r = False"

section \<open>Crash\<close>

text \<open>
  The crash point drawn by \<^verbatim>\<open>POST /api/crash/start\<close> from the draw \<open>u\<close> of
  \<^verbatim>\<open>Math.random()\<close>: \<^verbatim>\<open>Math.min(Math.max(1.01, Math.pow(u, -0.04)), 1000)\<close>. At
  \<open>u = 0\<close> the power is \<^verbatim>\<open>Infinity\<close> in JavaScript and the result is 1000.
\<close>

definition drawCrashPoint :: "real \<Rightarrow> real" where
  "drawCrashPoint u =
     (if u = 0 then 1000 else min (max 1.01 (u powr (- 0.04))) 1000)"

text \<open>
  \<^verbatim>\<open>POST /api/crash/start\<close>; \<open>now\<close> is \<^verbatim>\<open>Date.now()\<close> in milliseconds. The check for an
  active game comes before the validation of the request.
\<close>

definition crashStart :: "userId \<Rightarrow> real \<Rightarrow> real \<Rightarrow> real \<Rightarrow> state \<Rightarrow> state \<times> response" where
  "crashStart uid betAmount u now st =
     (if (case crashGames st uid of None \<Rightarrow> False | Some existingGame \<Rightarrow> crash_isActive existingGame)
      then (st, Error SessionAlreadyActive)
      else if \<not> validBetAmount betAmount then (st, Error ValidationError)
      else
        (let currentBalance = amountOrZero (getBalance st uid)
         in if jsLt currentBalance (Num betAmount) then (st, Error InsufficientFunds)
            else
              (let newBalance = jsSub currentBalance (Num betAmount);
                   st1 = updateBalance st uid newBalance;
                   st2 = createTransaction st1
                           \<lparr>tx_userId = uid, tx_type = BetTx, tx_amount = Num betAmount\<rparr>;
                   game = \<lparr>crash_betAmount = betAmount, startTime = now,
                           crashPoint = drawCrashPoint u, crash_isActive = True,
                           cashedOut = False\<rparr>;
                   st3 = st2\<lparr>crashGames := (crashGames st2)(uid \<mapsto> game)\<rparr>
               in (st3, CrashStarted (startTime game) (crash_betAmount game)))))"

text \<open>\<^verbatim>\<open>POST /api/crash/cashout\<close>: snapshot, delete, then a loss at the crash point or a win.\<close>

definition crashCashout :: "userId \<Rightarrow> real \<Rightarrow> state \<Rightarrow> state \<times> response" where
  "crashCashout uid now st =
     (case crashGames st uid of
        None \<Rightarrow> (st, Error NoActiveSession)
      | Some game \<Rightarrow>
          if \<not> crash_isActive game then (st, Error NoActiveSession)
          else if cashedOut game then (st, Error AlreadyCashedOut)
          else
            (let st1 = st\<lparr>crashGames := (crashGames st)(uid := None)\<rparr>;
                 elapsed = (now - startTime game) / 1000;
                 currentMultiplier = min (1 + elapsed * 0.1) (crashPoint game)
             in if currentMultiplier \<ge> crashPoint game then
                  (createBet st1
                     \<lparr>bet_userId = uid, bet_gameType = ''crash'',
                      bet_betAmount = Num (crash_betAmount game), bet_outcome = Loss,
                      bet_payout = Num 0\<rparr>,
                   CrashCrashed (crashPoint game) 0)
                else
                  (let payout = crash_betAmount game * currentMultiplier;
                       newBalance = jsAdd (amountOrZero (getBalance st1 uid)) (Num payout);
                       st2 = updateBalance st1 uid newBalance;
                       st3 = createBet st2
                               \<lparr>bet_userId = uid, bet_gameType = ''crash'',
                                bet_betAmount = Num (crash_betAmount game), bet_outcome = Win,
                                bet_payout = Num payout\<rparr>;
                       st4 = createTransaction st3
                               \<lparr>tx_userId = uid, tx_type = WinTx, tx_amount = Num payout\<rparr>
                   in (st4, CrashCashedOut currentMultiplier payout (crashPoint game)))))"

text \<open>
  \<^verbatim>\<open>GET /api/crash/status\<close>: once the clock \<^verbatim>\<open>1 + elapsed * 0.1\<close> has reached the crash
  point the poll deletes the game and records the losing bet.
\<close>

definition crashStatus :: "userId \<Rightarrow> real \<Rightarrow> state \<Rightarrow> state \<times> response" where
  "crashStatus uid now st =
     (case crashGames st uid of
        None \<Rightarrow> (st, NoActiveGame)
      | Some game \<Rightarrow>
          if \<not> crash_isActive game then (st, NoActiveGame)
          else
            (let elapsed = (now - startTime game) / 1000;
                 currentMultiplier = 1 + elapsed * 0.1
             in if currentMultiplier \<ge> crashPoint game then
                  (createBet (st\<lparr>crashGames := (crashGames st)(uid := None)\<rparr>)
                     \<lparr>bet_userId = uid, bet_gameType = ''crash'',
                      bet_betAmount = Num (crash_betAmount game), bet_outcome = Loss,
                      bet_payout = Num 0\<rparr>,
                   CrashAutoCrashed (crashPoint game))
                else
                  (st, CrashStatus currentMultiplier (crash_betAmount game)
                         (crash_betAmount game * currentMultiplier) (startTime game))))"

section \<open>Dice\<close>

text \<open>
  \<^verbatim>\<open>dicePlaySchema\<close>: the bet amount, \<^verbatim>\<open>target: z.number().min(1).max(99)\<close> (any number,
  not only an integer) and the refinement on target and direction.
\<close>

definition dicePlaySchema :: "real \<Rightarrow> real \<Rightarrow> direction \<Rightarrow> bool" where
  "dicePlaySchema betAmount target dir =
     (validBetAmount betAmount \<and> target \<ge> 1 \<and> target \<le> 99 \<and>
      (if dir = Over \<and> target \<ge> 99 then False
       else if dir = Under \<and> target \<le> 1 then False
       else True))"

text \<open>
  \<^verbatim>\<open>POST /api/dice/play\<close>; the roll is \<^verbatim>\<open>Math.floor(rnd * 100)\<close>. The bet is debited
  first and a win is credited by a second balance write.
\<close>

definition dicePlay :: "userId \<Rightarrow> real \<Rightarrow> real \<Rightarrow> direction \<Rightarrow> real \<Rightarrow> state \<Rightarrow> state \<times> response" where
  "dicePlay uid betAmount target dir rnd st =
     (if \<not> dicePlaySchema betAmount target dir then (st, Error ValidationError)
      else
        (let currentBalance = amountOrZero (getBalance st uid)
         in if jsLt currentBalance (Num betAmount) then (st, Error InsufficientFunds)
            else
              (let newBalance = jsSub currentBalance (Num betAmount);
                   st1 = updateBalance st uid newBalance;
                   st2 = createTransaction st1
                           \<lparr>tx_userId = uid, tx_type = BetTx, tx_amount = Num betAmount\<rparr>;
                   roll = \<lfloor>rnd * 100\<rfloor>;
                   win = (if dir = Over then of_int roll > target else of_int roll < target);
                   winChance = (if dir = Over then (99 - target) / 100 else target / 100);
                   multiplier = 0.98 / winChance;
                   payout = (if win then betAmount * multiplier else 0);
                   st3 = (if win
                          then createTransaction
                                 (updateBalance st2 uid (jsAdd newBalance (Num payout)))
                                 \<lparr>tx_userId = uid, tx_type = WinTx, tx_amount = Num payout\<rparr>
                          else st2);
                   st4 = createBet st3
                           \<lparr>bet_userId = uid, bet_gameType = ''dice'',
                            bet_betAmount = Num betAmount,
                            bet_outcome = (if win then Win else Loss),
                            bet_payout = Num payout\<rparr>
               in (st4, DiceRolled roll win payout target dir))))"

section \<open>Mines\<close>

text \<open>
  The placement loop of \<^verbatim>\<open>POST /api/mines/start\<close>: while fewer than \<^verbatim>\<open>mineCount\<close>
  positions are placed, draw \<^verbatim>\<open>Math.floor(Math.random() * gridSize)\<close> and keep it when it
  is new. The draws are a list; the loop has not returned (\<open>None\<close>) when the list is used
  up before enough distinct positions are found.
\<close>

fun placeMines :: "real \<Rightarrow> real \<Rightarrow> real list \<Rightarrow> real list \<Rightarrow> real list option" where
  "placeMines mc gs acc [] = (if real (length acc) < mc then None else Some acc)"
| "placeMines mc gs acc (rnd # rnds) =
     (if real (length acc) < mc then
        (let pos = of_int \<lfloor>rnd * gs\<rfloor>
         in if pos \<in> set acc then placeMines mc gs acc rnds
            else placeMines mc gs (acc @ [pos]) rnds)
      else Some acc)"

text \<open>\<^verbatim>\<open>minesStartSchema\<close>: the bet amount and \<^verbatim>\<open>mineCount: z.number().min(1).max(24)\<close>.\<close>

definition minesStartSchema :: "real \<Rightarrow> real \<Rightarrow> bool" where
  "minesStartSchema betAmount mc = (validBetAmount betAmount \<and> mc \<ge> 1 \<and> mc \<le> 24)"

text \<open>\<^verbatim>\<open>minesRevealSchema\<close>: \<^verbatim>\<open>tileIndex: z.number().min(0).max(24)\<close>.\<close>

definition minesRevealSchema :: "real \<Rightarrow> bool" where
  "minesRevealSchema tileIndex = (tileIndex \<ge> 0 \<and> tileIndex \<le> 24)"

text \<open>
  \<^verbatim>\<open>POST /api/mines/start\<close>; the result is \<open>None\<close> when the placement loop does not
  return on the draws given.
\<close>

definition minesStart :: "userId \<Rightarrow> real \<Rightarrow> real \<Rightarrow> real list \<Rightarrow> state \<Rightarrow> (state \<times> response) option" where
  "minesStart uid betAmount mc rnds st =
     (if (case minesGames st uid of None \<Rightarrow> False | Some existingGame \<Rightarrow> mines_isActive existingGame)
      then Some (st, Error SessionAlreadyActive)
      else if \<not> minesStartSchema betAmount mc then Some (st, Error ValidationError)
      else
        (let currentBalance = amountOrZero (getBalance st uid)
         in if jsLt currentBalance (Num betAmount) then Some (st, Error InsufficientFunds)
            else
              (let newBalance = jsSub currentBalance (Num betAmount);
                   st1 = updateBalance st uid newBalance;
                   st2 = createTransaction st1
                           \<lparr>tx_userId = uid, tx_type = BetTx, tx_amount = Num betAmount\<rparr>
               in case placeMines mc 25 [] rnds of
                    None \<Rightarrow> None
                  | Some positions \<Rightarrow>
                      (let game = \<lparr>mines_betAmount = betAmount, mineCount = mc, gridSize = 25,
                                   minePositions = positions, revealedTiles = [],
                                   mines_isActive = True, mines_currentMultiplier = 1.0\<rparr>
                       in Some (st2\<lparr>minesGames := (minesGames st2)(uid \<mapsto> game)\<rparr>,
                                MinesStarted 25 mc betAmount)))))"

text \<open>
  \<^verbatim>\<open>POST /api/mines/reveal\<close>. A mine deletes the game and records the losing bet; any other
  tile is pushed on \<^verbatim>\<open>revealedTiles\<close> and the multiplier is computed anew from the length
  of that list.
\<close>

definition minesReveal :: "userId \<Rightarrow> real \<Rightarrow> state \<Rightarrow> state \<times> response" where
  "minesReveal uid tileIndex st =
     (case minesGames st uid of
        None \<Rightarrow> (st, Error NoActiveSession)
      | Some game \<Rightarrow>
          if \<not> mines_isActive game then (st, Error NoActiveSession)
          else if \<not> minesRevealSchema tileIndex then (st, Error ValidationError)
          else if tileIndex \<in> set (revealedTiles game) then (st, Error InvalidMove)
          else if tileIndex \<in> set (minePositions game) then
            (createBet (st\<lparr>minesGames := (minesGames st)(uid := None)\<rparr>)
               \<lparr>bet_userId = uid, bet_gameType = ''mines'',
                bet_betAmount = Num (mines_betAmount game), bet_outcome = Loss, bet_payout = Num 0\<rparr>,
             MinesHit tileIndex (minePositions game) 0)
          else
            (let revealed = revealedTiles game @ [tileIndex];
                 revealedCount = length revealed;
                 game1 = game\<lparr>revealedTiles := revealed,
                               mines_currentMultiplier :=
                                 (gridSize game / (gridSize game - mineCount game)) ^ revealedCount\<rparr>
             in (st\<lparr>minesGames := (minesGames st)(uid \<mapsto> game1)\<rparr>,
                 MinesSafe tileIndex (revealedTiles game1) (mines_currentMultiplier game1)
                   (mines_betAmount game1 * mines_currentMultiplier game1))))"

text \<open>\<^verbatim>\<open>POST /api/mines/cashout\<close>.\<close>

definition minesCashout :: "userId \<Rightarrow> state \<Rightarrow> state \<times> response" where
  "minesCashout uid st =
     (case minesGames st uid of
        None \<Rightarrow> (st, Error NoActiveSession)
      | Some game \<Rightarrow>
          if \<not> mines_isActive game then (st, Error NoActiveSession)
          else if length (revealedTiles game) = 0 then (st, Error NothingToCashOut)
          else
            (let st1 = st\<lparr>minesGames := (minesGames st)(uid := None)\<rparr>;
                 payout = mines_betAmount game * mines_currentMultiplier game;
                 newBalance = jsAdd (amountOrZero (getBalance st1 uid)) (Num payout);
                 st2 = updateBalance st1 uid newBalance;
                 st3 = createBet st2
                         \<lparr>bet_userId = uid, bet_gameType = ''mines'',
                          bet_betAmount = Num (mines_betAmount game), bet_outcome = Win,
                          bet_payout = Num payout\<rparr>;
                 st4 = createTransaction st3
                         \<lparr>tx_userId = uid, tx_type = WinTx, tx_amount = Num payout\<rparr>
             in (st4, MinesCashedOut payout (mines_currentMultiplier game))))"

text \<open>A run of \<^verbatim>\<open>POST /api/mines/reveal\<close> requests of one user, with the responses.\<close>

fun minesReveals :: "userId \<Rightarrow> real list \<Rightarrow> state \<Rightarrow> state \<times> response list" where
  "minesReveals uid [] st = (st, [])"
| "minesReveals uid (t # ts) st =
     (let (st1, r) = minesReveal uid t st;
          (st2, rs) = minesReveals uid ts st1
      in (st2, r # rs))"

fun isMinesSafe :: "response \<Rightarrow> bool" where
  "isMinesSafe (MinesSafe t rv m p) = True"
| "isMinesSafe r = False"

section \<open>Coin flip and roulette\<close>

definition simulateCoinFlip :: "real \<Rightarrow> coinSide" where
  "simulateCoinFlip rnd = (if rnd < 0.5 then Heads else Tails)"

definition coinSideName :: "coinSide \<Rightarrow> string" where
  "coinSideName c = (case c of Heads \<Rightarrow> ''heads'' | Tails \<Rightarrow> ''tails'')"

definition RED_NUMBERS :: "int list" where
  "RED_NUMBERS = [1, 3, 5, 7, 9, 12, 14, 16, 18, 19, 21, 23, 25, 27, 30, 32, 34, 36]"

definition BLACK_NUMBERS :: "int list" where
  "BLACK_NUMBERS = [2, 4, 6, 8, 10, 11, 13, 15, 17, 20, 22, 24, 26, 28, 29, 31, 33, 35]"

definition spinRouletteWheel :: "real \<Rightarrow> int" where
  "spinRouletteWheel rnd = \<lfloor>rnd * 37\<rfloor>"

definition isRedNumber :: "int \<Rightarrow> bool" where
  "isRedNumber num = (num \<in> set RED_NUMBERS)"

definition isBlackNumber :: "int \<Rightarrow> bool" where
  "isBlackNumber num = (num \<in> set BLACK_NUMBERS)"

text \<open>
  \<open>choiceInt\<close> is \<^verbatim>\<open>parseInt(betChoice)\<close>, \<open>None\<close> for \<^verbatim>\<open>NaN\<close>; it is an argument of the
  model beside the string it is read from.
\<close>

definition checkRouletteWin :: "string \<Rightarrow> int option \<Rightarrow> int \<Rightarrow> bool" where
  "checkRouletteWin betChoice choiceInt num =
     (if betChoice = ''red'' then isRedNumber num
      else if betChoice = ''black'' then isBlackNumber num
      else if betChoice = ''even'' then num \<noteq> 0 \<and> num mod 2 = 0
      else if betChoice = ''odd'' then num \<noteq> 0 \<and> num mod 2 = 1
      else choiceInt = Some num)"

definition calculateRoulettePayout :: "int option \<Rightarrow> jsNumber \<Rightarrow> jsNumber" where
  "calculateRoulettePayout choiceInt betAmount =
     (if choiceInt \<noteq> None then jsMul betAmount (Num 36) else jsMul betAmount (Num 2))"

text \<open>
  \<^verbatim>\<open>POST /api/bet\<close>. \<^verbatim>\<open>betSchema\<close> is derived from the \<^verbatim>\<open>bets\<close> table, whose
  \<^verbatim>\<open>bet_amount\<close> column is a decimal carried as a string: the request's \<^verbatim>\<open>gameType\<close>,
  \<^verbatim>\<open>betAmount\<close> and \<^verbatim>\<open>betChoice\<close> are any strings, and the handler reads the amount
  with \<^verbatim>\<open>parseFloat\<close>, with no check that it is a number, of its sign or of its size.
  \<open>betAmount\<close> is what \<^verbatim>\<open>parseFloat\<close> reads, \<^verbatim>\<open>NaN\<close> included. The payout is the string
  \<^verbatim>\<open>'0'\<close> or the string of a product, read back with \<^verbatim>\<open>parseFloat\<close>.
\<close>

definition placeBet ::
  "userId \<Rightarrow> string \<Rightarrow> jsNumber \<Rightarrow> string \<Rightarrow> int option \<Rightarrow> real \<Rightarrow> state \<Rightarrow> state \<times> response" where
  "placeBet uid gameType betAmount betChoice choiceInt rnd st =
     (case getBalance st uid of
        None \<Rightarrow> (st, Error InsufficientFunds)
      | Some balance \<Rightarrow>
          if jsLt (amount balance) betAmount then (st, Error InsufficientFunds)
          else
            (let (result, outcome, payout) =
                   (if gameType = ''roulette'' then
                      (let wheelResult = spinRouletteWheel rnd;
                           isWin = checkRouletteWin betChoice choiceInt wheelResult
                       in (Wheel wheelResult, if isWin then Win else Loss,
                           if isWin then calculateRoulettePayout choiceInt betAmount else Num 0))
                    else
                      (let flipResult = simulateCoinFlip rnd;
                           oc = (if coinSideName flipResult = betChoice then Win else Loss)
                       in (Flip flipResult, oc,
                           if oc = Win then jsMul betAmount (Num 2) else Num 0)));
                 st1 = createBet st
                         \<lparr>bet_userId = uid, bet_gameType = gameType, bet_betAmount = betAmount,
                          bet_outcome = outcome, bet_payout = payout\<rparr>;
                 currentBalance = amount balance;
                 newBalance = (if outcome = Win
                               then jsAdd (jsSub currentBalance betAmount) payout
                               else jsSub currentBalance betAmount);
                 st2 = updateBalance st1 uid newBalance;
                 st3 = createTransaction st2
                         \<lparr>tx_userId = uid, tx_type = BetTx, tx_amount = betAmount\<rparr>;
                 st4 = (if outcome = Win
                        then createTransaction st3
                               \<lparr>tx_userId = uid, tx_type = WinTx, tx_amount = payout\<rparr>
                        else st3)
             in (st4, BetPlaced result outcome payout)))"

section \<open>Example states\<close>

text \<open>A ledger holding one balance row and nothing else, with no session.\<close>

definition ledgerOf :: "userId \<Rightarrow> real \<Rightarrow> state" where
  "ledgerOf uid a =
     \<lparr>balances = [uid \<mapsto> \<lparr>amount = Num a, currency = ''USDT''\<rparr>], bets = [], transactions = [],
      towerGames = Map.empty, crashGames = Map.empty, minesGames = Map.empty\<rparr>"

text \<open>The empty process state: no balance row, no record, no session.\<close>

definition emptyState :: state where
  "emptyState =
     \<lparr>balances = Map.empty, bets = [], transactions = [],
      towerGames = Map.empty, crashGames = Map.empty, minesGames = Map.empty\<rparr>"

text \<open>
  A user with balance 90 and a running session of stake 10: a Tower game after one win at
  easy, a Crash game started at time 0 with crash point 1.01, a Mines game with five mines
  after the safe reveal of tile 10.
\<close>

definition towerExample :: state where
  "towerExample =
     (ledgerOf ''u'' 90)\<lparr>towerGames :=
        [''u'' \<mapsto> \<lparr>tower_userId = ''u'', tower_betAmount = 10, currentLevel = 1,
                   tower_currentMultiplier = 1.5, tower_isActive = True\<rparr>]\<rparr>"

definition crashExample :: state where
  "crashExample =
     (ledgerOf ''u'' 90)\<lparr>crashGames :=
        [''u'' \<mapsto> \<lparr>crash_betAmount = 10, startTime = 0, crashPoint = 1.01,
                   crash_isActive = True, cashedOut = False\<rparr>]\<rparr>"

definition minesExample :: state where
  "minesExample =
     (ledgerOf ''u'' 90)\<lparr>minesGames :=
        [''u'' \<mapsto> \<lparr>mines_betAmount = 10, mineCount = 5, gridSize = 25,
                   minePositions = [0, 1, 2, 3, 4], revealedTiles = [10],
                   mines_isActive = True, mines_currentMultiplier = 1.25\<rparr>]\<rparr>"

fun isError :: "response \<Rightarrow> bool" where
  "isError (Error e) = True"
| "isError r = False"

section \<open>Auxiliary facts\<close>

lemmas ledger_defs = getBalance_def updateBalance_def createBet_def createTransaction_def
  amountOrZero_def createBalance_def jsSub_def

lemmas eval_defs = ledgerOf_def emptyState_def towerExample_def crashExample_def
  minesExample_def validBetAmount_def isInteger_def Let_def MAX_TOWER_LEVEL_def

lemma towerPlay_won:
  assumes "towerPlay uid d rnd st = (st1, r)" "isTowerWon r" "towerGames st uid = Some g"
  shows "st1 = st\<lparr>towerGames := (towerGames st)(uid \<mapsto> g\<lparr>currentLevel := currentLevel g + 1,
              tower_currentMultiplier := tower_currentMultiplier g * towerMultiplier d\<rparr>)\<rparr>
         \<and> tower_isActive g"
  using assms by (auto simp: towerPlay_def Let_def createBet_def split: if_splits)

lemma towerPlays_won:
  "towerGames st uid = Some g \<Longrightarrow> towerPlays uid moves st = (st', rs) \<Longrightarrow>
   list_all isTowerWon rs \<Longrightarrow>
   st' = (if moves = [] then st else
          st\<lparr>towerGames := (towerGames st)(uid \<mapsto> g\<lparr>currentLevel := currentLevel g + length moves,
              tower_currentMultiplier :=
                tower_currentMultiplier g * prod_list (map (towerMultiplier \<circ> fst) moves)\<rparr>)\<rparr>)"
proof (induction moves arbitrary: st g rs st')
  case Nil
  then show ?case by simp
next
  case (Cons mv moves)
  obtain d rnd where mv: "mv = (d, rnd)" by (cases mv)
  obtain st1 r where p: "towerPlay uid d rnd st = (st1, r)" by (cases "towerPlay uid d rnd st")
  obtain st2 rs2 where q: "towerPlays uid moves st1 = (st2, rs2)" by (cases "towerPlays uid moves st1")
  from Cons.prems(2) mv p q have eq: "st' = st2" "rs = r # rs2" by simp_all
  with Cons.prems(3) have w: "isTowerWon r" and ws: "list_all isTowerWon rs2" by simp_all
  note s1 = towerPlay_won[OF p w Cons.prems(1)]
  let ?g1 = "g\<lparr>currentLevel := currentLevel g + 1,
              tower_currentMultiplier := tower_currentMultiplier g * towerMultiplier d\<rparr>"
  from s1 have g1: "towerGames st1 uid = Some ?g1" by simp
  from Cons.IH[OF g1 q ws] eq s1 mv show ?case by (simp add: algebra_simps)
qed

lemma towerStart_started:
  assumes "towerStart uid b st0 = (st, TowerStarted l m p)"
  shows "towerGames st uid = Some \<lparr>tower_userId = uid, tower_betAmount = b, currentLevel = 0,
                         tower_currentMultiplier = 1, tower_isActive = True\<rparr>"
  using assms
  by (auto simp: towerStart_def Let_def ledger_defs split: if_splits option.splits)

lemma isInteger_of_int: "isInteger (real_of_int k)"
  by (simp add: isInteger_def)

lemma placeMines_props:
  "placeMines mc gs acc rnds = Some ps \<Longrightarrow> distinct acc \<Longrightarrow> list_all isInteger acc \<Longrightarrow>
   real (length acc) < mc + 1 \<Longrightarrow>
   distinct ps \<and> list_all isInteger ps \<and> mc \<le> real (length ps) \<and> real (length ps) < mc + 1"
proof (induction rnds arbitrary: acc)
  case Nil
  then show ?case by (simp split: if_splits)
next
  case (Cons rnd rnds)
  show ?case
  proof (cases "real (length acc) < mc")
    case False
    with Cons.prems show ?thesis by simp
  next
    case True
    let ?pos = "real_of_int \<lfloor>rnd * gs\<rfloor>"
    show ?thesis
    proof (cases "?pos \<in> set acc")
      case True
      with \<open>real (length acc) < mc\<close> Cons.prems(1) have "placeMines mc gs acc rnds = Some ps"
        by (simp add: Let_def)
      from Cons.IH[OF this Cons.prems(2,3,4)] show ?thesis .
    next
      case False
      with \<open>real (length acc) < mc\<close> Cons.prems(1)
      have p: "placeMines mc gs (acc @ [?pos]) rnds = Some ps" by (simp add: Let_def)
      have d: "distinct (acc @ [?pos])" using False Cons.prems(2) by simp
      have i: "list_all isInteger (acc @ [?pos])" using Cons.prems(3) by (simp add: isInteger_of_int)
      have l: "real (length (acc @ [?pos])) < mc + 1" using \<open>real (length acc) < mc\<close> by simp
      from Cons.IH[OF p d i l] show ?thesis .
    qed
  qed
qed

lemma minesStart_started:
  assumes "minesStart uid b mc rnds st0 = Some (st, MinesStarted gs mc' b')"
  shows "\<exists>ps. minesGames st uid =
            Some \<lparr>mines_betAmount = b, mineCount = mc, gridSize = 25, minePositions = ps,
                  revealedTiles = [], mines_isActive = True, mines_currentMultiplier = 1\<rparr>
          \<and> distinct ps \<and> list_all isInteger ps \<and> mc \<le> real (length ps) \<and> real (length ps) < mc + 1"
proof -
  from assms have v: "minesStartSchema b mc"
    by (auto simp: minesStart_def Let_def split: if_splits option.splits)
  then have "1 \<le> mc" by (simp add: minesStartSchema_def)
  from assms obtain ps where ps: "placeMines mc 25 [] rnds = Some ps"
    by (auto simp: minesStart_def Let_def split: if_splits option.splits)
  have "real (length ([]::real list)) < mc + 1" using \<open>1 \<le> mc\<close> by simp
  from placeMines_props[OF ps _ _ this]
  have pp: "distinct ps \<and> list_all isInteger ps \<and> mc \<le> real (length ps) \<and> real (length ps) < mc + 1"
    by simp
  from assms ps have "minesGames st uid =
            Some \<lparr>mines_betAmount = b, mineCount = mc, gridSize = 25, minePositions = ps,
                  revealedTiles = [], mines_isActive = True, mines_currentMultiplier = 1\<rparr>"
    by (auto simp: minesStart_def Let_def ledger_defs split: if_splits option.splits)
  with pp show ?thesis by blast
qed

lemma minesReveal_fields:
  assumes "minesReveal uid t st = (st1, r)" "minesGames st1 uid = Some g1"
  shows "\<exists>g. minesGames st uid = Some g \<and> minePositions g1 = minePositions g \<and>
             mineCount g1 = mineCount g \<and> gridSize g1 = gridSize g"
  using assms
  by (auto simp: minesReveal_def Let_def createBet_def split: if_splits option.splits)

lemma minesReveals_fields:
  "minesReveals uid ts st = (st', rs) \<Longrightarrow> minesGames st' uid = Some g' \<Longrightarrow>
   \<exists>g. minesGames st uid = Some g \<and> minePositions g' = minePositions g \<and>
       mineCount g' = mineCount g \<and> gridSize g' = gridSize g"
proof (induction ts arbitrary: st rs st')
  case Nil
  then show ?case by simp
next
  case (Cons t ts)
  obtain st1 r where p: "minesReveal uid t st = (st1, r)" by (cases "minesReveal uid t st")
  obtain st2 rs2 where q: "minesReveals uid ts st1 = (st2, rs2)" by (cases "minesReveals uid ts st1")
  from Cons.prems(1) p q have eq: "st' = st2" by simp
  from Cons.IH[OF q] Cons.prems(2) eq obtain g1 where
    g1: "minesGames st1 uid = Some g1" "minePositions g' = minePositions g1"
        "mineCount g' = mineCount g1" "gridSize g' = gridSize g1" by blast
  from minesReveal_fields[OF p g1(1)] g1 show ?case by auto
qed

lemma isInteger_member:
  "list_all isInteger ps \<Longrightarrow> \<not> isInteger t \<Longrightarrow> t \<notin> set ps"
  by (induction ps) auto

section \<open>The claims\<close>

text \<open>
  Claim C1, as amended. \<^verbatim>\<open>POST /api/crash/start\<close> and \<^verbatim>\<open>POST /api/mines/start\<close> of a user
  who has an active session of that game answer \<open>SessionAlreadyActive\<close> and leave the state
  as it is. \<^verbatim>\<open>POST /api/tower/start\<close> does not reject: with a valid bet amount that the
  balance covers it drops the session the user has, debits the new bet and stores a new
  session at level 0 with multiplier 1 in its place (the balance covers the bet when
  \<^verbatim>\<open>balance < betAmount\<close> is false, which for a finite balance is \<open>betAmount \<le> balance\<close>).
  Each session map holds one session per user at most, being keyed by the user.
\<close>

theorem start_while_active:
  "(crashGames st uid = Some c \<and> crash_isActive c \<longrightarrow>
      crashStart uid b u now st = (st, Error SessionAlreadyActive)) \<and>
   (minesGames st uid = Some m \<and> mines_isActive m \<longrightarrow>
      minesStart uid b mc rnds st = Some (st, Error SessionAlreadyActive)) \<and>
   (towerGames st uid = Some t \<and> validBetAmount b \<and> getBalance st uid = Some bal \<and>
    \<not> jsLt (amount bal) (Num b) \<longrightarrow>
      towerStart uid b st =
        (st\<lparr>balances := (balances st)(uid \<mapsto> bal\<lparr>amount := jsSub (amount bal) (Num b)\<rparr>),
            transactions := transactions st @
              [\<lparr>tx_userId = uid, tx_type = BetTx, tx_amount = Num b\<rparr>],
            towerGames := (towerGames st)(uid \<mapsto>
              \<lparr>tower_userId = uid, tower_betAmount = b, currentLevel = 0,
               tower_currentMultiplier = 1, tower_isActive = True\<rparr>)\<rparr>,
         TowerStarted 0 1 b))"
  by (auto simp: crashStart_def minesStart_def towerStart_def Let_def getBalance_def
      updateBalance_def createTransaction_def)

theorem start_while_active_witness:
  "crashGames crashExample ''u'' \<noteq> None \<and>
   crashStart ''u'' 10 0.5 7 crashExample = (crashExample, Error SessionAlreadyActive) \<and>
   minesGames minesExample ''u'' \<noteq> None \<and>
   minesStart ''u'' 10 3 [0.1, 0.5, 0.9] minesExample =
     Some (minesExample, Error SessionAlreadyActive) \<and>
   towerGames towerExample ''u'' \<noteq> None \<and>
   snd (towerStart ''u'' 5 towerExample) = TowerStarted 0 1 5"
proof -
  let ?c = "\<lparr>crash_betAmount = 10, startTime = 0, crashPoint = 1.01,
                   crash_isActive = True, cashedOut = False\<rparr>"
  let ?m = "\<lparr>mines_betAmount = 10, mineCount = 5, gridSize = 25,
                   minePositions = [0, 1, 2, 3, 4], revealedTiles = [10],
                   mines_isActive = True, mines_currentMultiplier = 1.25\<rparr>"
  let ?t = "\<lparr>tower_userId = ''u'', tower_betAmount = 10, currentLevel = 1,
                   tower_currentMultiplier = 1.5, tower_isActive = True\<rparr>"
  let ?bal = "\<lparr>amount = Num 90, currency = ''USDT''\<rparr>"
  have c: "crashGames crashExample ''u'' = Some ?c \<and> crash_isActive ?c"
    by (simp add: eval_defs)
  have m: "minesGames minesExample ''u'' = Some ?m \<and> mines_isActive ?m"
    by (simp add: eval_defs)
  have t: "towerGames towerExample ''u'' = Some ?t \<and> validBetAmount 5 \<and>
           getBalance towerExample ''u'' = Some ?bal \<and> \<not> jsLt (amount ?bal) (Num 5)"
    by (simp add: eval_defs ledger_defs)
  from c start_while_active[where st = crashExample and uid = "''u''" and c = ?c and b = 10
      and u = "0.5" and now = 7]
  have 1: "crashStart ''u'' 10 0.5 7 crashExample = (crashExample, Error SessionAlreadyActive)"
    by blast
  from m start_while_active[where st = minesExample and uid = "''u''" and m = ?m and b = 10
      and mc = 3 and rnds = "[0.1, 0.5, 0.9]"]
  have 2: "minesStart ''u'' 10 3 [0.1, 0.5, 0.9] minesExample =
     Some (minesExample, Error SessionAlreadyActive)"
    by blast
  from t start_while_active[where st = towerExample and uid = "''u''" and t = ?t and b = 5
      and bal = ?bal]
  have 3: "snd (towerStart ''u'' 5 towerExample) = TowerStarted 0 1 5"
    by (metis snd_conv)
  from c m t 1 2 3 show ?thesis by (metis option.distinct(1))
qed

text \<open>
  Claim C1 as stated fails for Tower: a user with an active Tower game (level 1, stake 10)
  who starts again with stake 5 is answered with the new game, which replaces the old one,
  and is debited 5.
\<close>

theorem tower_start_while_active_counterexample:
  "towerStatus ''u'' towerExample = (towerExample, TowerStatus 1 1.5 15 10) \<and>
   snd (towerStart ''u'' 5 towerExample) = TowerStarted 0 1 5 \<and>
   towerGames (fst (towerStart ''u'' 5 towerExample)) ''u'' =
     Some \<lparr>tower_userId = ''u'', tower_betAmount = 5, currentLevel = 0,
           tower_currentMultiplier = 1, tower_isActive = True\<rparr> \<and>
   getBalance (fst (towerStart ''u'' 5 towerExample)) ''u'' =
     Some \<lparr>amount = Num 85, currency = ''USDT''\<rparr>"
  by (simp add: towerStatus_def towerStart_def eval_defs ledger_defs)

text \<open>
  Claim C2. In Tower, Crash and Mines, after a cashout that was answered without an error,
  a second cashout of the same user is answered \<open>NoActiveSession\<close> and returns the state
  it was given: no balance write and no second bet record.
\<close>

theorem cashout_only_once:
  "(towerCashout uid st = (st1, r1) \<and> \<not> isError r1 \<longrightarrow>
      towerCashout uid st1 = (st1, Error NoActiveSession)) \<and>
   (crashCashout uid now st = (st2, r2) \<and> \<not> isError r2 \<longrightarrow>
      crashCashout uid now' st2 = (st2, Error NoActiveSession)) \<and>
   (minesCashout uid st = (st3, r3) \<and> \<not> isError r3 \<longrightarrow>
      minesCashout uid st3 = (st3, Error NoActiveSession))"
proof (intro conjI impI)
  assume "towerCashout uid st = (st1, r1) \<and> \<not> isError r1"
  then have "towerGames st1 uid = None"
    by (auto simp: towerCashout_def Let_def ledger_defs split: option.splits if_splits)
  then show "towerCashout uid st1 = (st1, Error NoActiveSession)"
    by (simp add: towerCashout_def)
next
  assume "crashCashout uid now st = (st2, r2) \<and> \<not> isError r2"
  then have "crashGames st2 uid = None"
    by (auto simp: crashCashout_def Let_def ledger_defs split: option.splits if_splits)
  then show "crashCashout uid now' st2 = (st2, Error NoActiveSession)"
    by (simp add: crashCashout_def)
next
  assume "minesCashout uid st = (st3, r3) \<and> \<not> isError r3"
  then have "minesGames st3 uid = None"
    by (auto simp: minesCashout_def Let_def ledger_defs split: option.splits if_splits)
  then show "minesCashout uid st3 = (st3, Error NoActiveSession)"
    by (simp add: minesCashout_def)
qed

theorem cashout_only_once_witness:
  "snd (towerCashout ''u'' towerExample) = TowerCashedOut 15 1 1.5 \<and>
   towerCashout ''u'' (fst (towerCashout ''u'' towerExample)) =
     (fst (towerCashout ''u'' towerExample), Error NoActiveSession) \<and>
   snd (crashCashout ''u'' 50 crashExample) = CrashCashedOut 1.005 10.05 1.01 \<and>
   crashCashout ''u'' 60 (fst (crashCashout ''u'' 50 crashExample)) =
     (fst (crashCashout ''u'' 50 crashExample), Error NoActiveSession) \<and>
   snd (minesCashout ''u'' minesExample) = MinesCashedOut 12.5 1.25 \<and>
   minesCashout ''u'' (fst (minesCashout ''u'' minesExample)) =
     (fst (minesCashout ''u'' minesExample), Error NoActiveSession)"
proof -
  have t: "snd (towerCashout ''u'' towerExample) = TowerCashedOut 15 1 1.5"
    by (simp add: towerCashout_def eval_defs ledger_defs)
  have c: "snd (crashCashout ''u'' 50 crashExample) = CrashCashedOut 1.005 10.05 1.01"
    by (simp add: crashCashout_def eval_defs ledger_defs)
  have m: "snd (minesCashout ''u'' minesExample) = MinesCashedOut 12.5 1.25"
    by (simp add: minesCashout_def eval_defs ledger_defs)
  have t': "towerCashout ''u'' towerExample = (fst (towerCashout ''u'' towerExample),
      snd (towerCashout ''u'' towerExample)) \<and> \<not> isError (snd (towerCashout ''u'' towerExample))"
    using t by (metis prod.collapse isError.simps)
  have c': "crashCashout ''u'' 50 crashExample = (fst (crashCashout ''u'' 50 crashExample),
      snd (crashCashout ''u'' 50 crashExample)) \<and> \<not> isError (snd (crashCashout ''u'' 50 crashExample))"
    using c by (metis prod.collapse isError.simps)
  have m': "minesCashout ''u'' minesExample = (fst (minesCashout ''u'' minesExample),
      snd (minesCashout ''u'' minesExample)) \<and> \<not> isError (snd (minesCashout ''u'' minesExample))"
    using m by (metis prod.collapse isError.simps)
  note T = cashout_only_once[where uid = "''u''" and st = towerExample
      and ?st1.0 = "fst (towerCashout ''u'' towerExample)"
      and ?r1.0 = "snd (towerCashout ''u'' towerExample)"]
  note C = cashout_only_once[where uid = "''u''" and st = crashExample and now = 50
      and now' = 60 and ?st2.0 = "fst (crashCashout ''u'' 50 crashExample)"
      and ?r2.0 = "snd (crashCashout ''u'' 50 crashExample)"]
  note M = cashout_only_once[where uid = "''u''" and st = minesExample
      and ?st3.0 = "fst (minesCashout ''u'' minesExample)"
      and ?r3.0 = "snd (minesCashout ''u'' minesExample)"]
  from T t' have 1: "towerCashout ''u'' (fst (towerCashout ''u'' towerExample)) =
     (fst (towerCashout ''u'' towerExample), Error NoActiveSession)" by blast
  from C c' have 2: "crashCashout ''u'' 60 (fst (crashCashout ''u'' 50 crashExample)) =
     (fst (crashCashout ''u'' 50 crashExample), Error NoActiveSession)" by blast
  from M m' have 3: "minesCashout ''u'' (fst (minesCashout ''u'' minesExample)) =
     (fst (minesCashout ''u'' minesExample), Error NoActiveSession)" by blast
  from t c m 1 2 3 show ?thesis by blast
qed


text \<open>
  Claim C4. When the clock \<open>1 + elapsedSeconds * 0.1\<close> of an active Crash session has
  reached its crash point, \<^verbatim>\<open>GET /api/crash/status\<close> removes the session from the map,
  records a losing bet with payout 0 and answers \<^verbatim>\<open>crashed: true\<close> with the crash point;
  nothing else of the state changes.
\<close>

theorem crash_status_settles_loss:
  assumes "crashGames st uid = Some game" and "crash_isActive game"
    and "1 + ((now - startTime game) / 1000) * 0.1 \<ge> crashPoint game"
  shows "crashStatus uid now st =
           (st\<lparr>crashGames := (crashGames st)(uid := None),
               bets := bets st @ [\<lparr>bet_userId = uid, bet_gameType = ''crash'',
                                   bet_betAmount = Num (crash_betAmount game), bet_outcome = Loss,
                                   bet_payout = Num 0\<rparr>]\<rparr>,
            CrashAutoCrashed (crashPoint game))"
  using assms by (simp add: crashStatus_def Let_def createBet_def)

theorem crash_status_settles_loss_witness:
  "crashGames crashExample ''u'' =
     Some \<lparr>crash_betAmount = 10, startTime = 0, crashPoint = 1.01, crash_isActive = True,
           cashedOut = False\<rparr> \<and>
   1 + ((100 - 0) / 1000) * 0.1 \<ge> (1.01::real) \<and>
   snd (crashStatus ''u'' 100 crashExample) = CrashAutoCrashed 1.01 \<and>
   crashGames (fst (crashStatus ''u'' 100 crashExample)) ''u'' = None \<and>
   bets (fst (crashStatus ''u'' 100 crashExample)) =
     [\<lparr>bet_userId = ''u'', bet_gameType = ''crash'', bet_betAmount = Num 10, bet_outcome = Loss,
       bet_payout = Num 0\<rparr>] \<and>
   getBalance (fst (crashStatus ''u'' 100 crashExample)) ''u'' = getBalance crashExample ''u''"
proof -
  let ?g = "\<lparr>crash_betAmount = 10, startTime = 0, crashPoint = 1.01, crash_isActive = True,
           cashedOut = False\<rparr>"
  have b0: "bets crashExample = []" by (simp add: eval_defs)
  have a: "crashGames crashExample ''u'' = Some ?g" by (simp add: eval_defs)
  have b: "crash_isActive ?g" by simp
  have c: "1 + ((100 - startTime ?g) / 1000) * 0.1 \<ge> crashPoint ?g" by simp
  have c': "1 + ((100 - 0) / 1000) * 0.1 \<ge> (1.01::real)" by simp
  from crash_status_settles_loss[OF a b c] b0
  have "snd (crashStatus ''u'' 100 crashExample) = CrashAutoCrashed 1.01"
       "crashGames (fst (crashStatus ''u'' 100 crashExample)) ''u'' = None"
       "bets (fst (crashStatus ''u'' 100 crashExample)) =
     [\<lparr>bet_userId = ''u'', bet_gameType = ''crash'', bet_betAmount = Num 10, bet_outcome = Loss,
       bet_payout = Num 0\<rparr>]"
       "getBalance (fst (crashStatus ''u'' 100 crashExample)) ''u'' = getBalance crashExample ''u''"
    by (simp_all add: getBalance_def)
  with a c' show ?thesis by blast
qed

text \<open>
  Claim C5 asks that a Mines session with \<open>m\<close> mines have the multiplier
  \<open>(25 / (25 - m)) ^ k\<close> after \<open>k\<close> safe reveals. The schema takes \<^verbatim>\<open>mineCount\<close> as any
  number from 1 to 24: the start with \<^verbatim>\<open>mineCount\<close> 1.5 is accepted, the placement loop
  runs until two mines are placed, and the safe reveal of tile 10 sets the multiplier from
  the 1.5 of the request, to \<open>25 / 23.5\<close>, which is less than the \<open>25 / 23\<close> of two mines.
\<close>

theorem mines_fractional_count_multiplier:
  "minesStart ''u'' 10 1.5 [0, 0.04] (ledgerOf ''u'' 100) =
     Some ((ledgerOf ''u'' 90)
             \<lparr>transactions := [\<lparr>tx_userId = ''u'', tx_type = BetTx, tx_amount = Num 10\<rparr>],
              minesGames :=
                [''u'' \<mapsto> \<lparr>mines_betAmount = 10, mineCount = 1.5, gridSize = 25,
                           minePositions = [0, 1], revealedTiles = [], mines_isActive = True,
                           mines_currentMultiplier = 1\<rparr>]\<rparr>,
           MinesStarted 25 1.5 10) \<and>
   snd (minesReveal ''u'' 10
          (fst (the (minesStart ''u'' 10 1.5 [0, 0.04] (ledgerOf ''u'' 100))))) =
     MinesSafe 10 [10] (50 / 47) (500 / 47) \<and>
   (50 / 47 :: real) < (25 / (25 - 2)) ^ 1"
proof -
  have s: "minesStart ''u'' 10 1.5 [0, 0.04] (ledgerOf ''u'' 100) =
     Some ((ledgerOf ''u'' 90)
             \<lparr>transactions := [\<lparr>tx_userId = ''u'', tx_type = BetTx, tx_amount = Num 10\<rparr>],
              minesGames :=
                [''u'' \<mapsto> \<lparr>mines_betAmount = 10, mineCount = 1.5, gridSize = 25,
                           minePositions = [0, 1], revealedTiles = [], mines_isActive = True,
                           mines_currentMultiplier = 1\<rparr>]\<rparr>,
           MinesStarted 25 1.5 10)"
    by (simp add: minesStart_def minesStartSchema_def eval_defs ledger_defs)
  have r: "snd (minesReveal ''u'' 10
          (fst (the (minesStart ''u'' 10 1.5 [0, 0.04] (ledgerOf ''u'' 100))))) =
     MinesSafe 10 [10] (50 / 47) (500 / 47)"
    unfolding s by (simp add: minesReveal_def minesRevealSchema_def eval_defs)
  have "(50 / 47 :: real) < (25 / (25 - 2)) ^ 1" by simp
  with s r show ?thesis by blast
qed

text \<open>
  Claim C6. A Tower session that \<^verbatim>\<open>POST /api/tower/start\<close> has just created (level 0,
  multiplier 1) and that wins \<open>k\<close> plays in a row, all at one difficulty, holds the
  multiplier \<open>baseMultiplier ^ k\<close> and the level \<open>k\<close>, where the base multiplier is 1.5
  for easy, 2.0 for medium and 3.0 for hard.
\<close>

theorem tower_multiplier_power:
  assumes "towerStart uid b st0 = (st, TowerStarted l m p)"
    and "towerPlays uid (map (Pair d) rnds) st = (st', rs)"
    and "list_all isTowerWon rs"
  shows "\<exists>g. towerGames st' uid = Some g \<and> tower_isActive g \<and> currentLevel g = length rnds \<and>
             tower_currentMultiplier g =
               (case d of Easy \<Rightarrow> 1.5 | Medium \<Rightarrow> 2.0 | Hard \<Rightarrow> 3.0) ^ length rnds"
proof -
  have m: "towerMultiplier d = (case d of Easy \<Rightarrow> 1.5 | Medium \<Rightarrow> 2.0 | Hard \<Rightarrow> 3.0)"
    by (cases d) simp_all
  have c: "map (towerMultiplier \<circ> fst) (map (Pair d) rnds) = replicate (length rnds) (towerMultiplier d)"
    by (induction rnds) simp_all
  from towerStart_started[OF assms(1)]
  have g: "towerGames st uid = Some \<lparr>tower_userId = uid, tower_betAmount = b, currentLevel = 0,
                         tower_currentMultiplier = 1, tower_isActive = True\<rparr>" by simp
  from towerPlays_won[OF g assms(2,3)] g c m show ?thesis
    by (cases "rnds = []") (simp_all add: prod_list_replicate)
qed

theorem tower_multiplier_power_witness:
  "snd (towerStart ''u'' 10 (ledgerOf ''u'' 100)) = TowerStarted 0 1 10 \<and>
   list_all isTowerWon
     (snd (towerPlays ''u'' (map (Pair Easy) [0.1, 0.2, 0.3])
             (fst (towerStart ''u'' 10 (ledgerOf ''u'' 100))))) \<and>
   (\<exists>g. towerGames
          (fst (towerPlays ''u'' (map (Pair Easy) [0.1, 0.2, 0.3])
                  (fst (towerStart ''u'' 10 (ledgerOf ''u'' 100))))) ''u'' = Some g \<and>
        currentLevel g = 3 \<and> tower_currentMultiplier g = 3.375)"
proof -
  let ?st = "fst (towerStart ''u'' 10 (ledgerOf ''u'' 100))"
  let ?run = "towerPlays ''u'' (map (Pair Easy) [0.1, 0.2, 0.3]) ?st"
  have a': "snd (towerStart ''u'' 10 (ledgerOf ''u'' 100)) = TowerStarted 0 1 10"
    by (simp add: towerStart_def eval_defs ledger_defs)
  then have a: "towerStart ''u'' 10 (ledgerOf ''u'' 100) = (?st, TowerStarted 0 1 10)"
    by (metis prod.collapse)
  have b: "?run = (fst ?run, snd ?run)" by (metis prod.collapse)
  have c: "list_all isTowerWon (snd ?run)"
    by (simp add: towerStart_def towerPlay_def eval_defs ledger_defs)
  from tower_multiplier_power[OF a b c] obtain g where
    g: "towerGames (fst ?run) ''u'' = Some g" "currentLevel g = length [0.1::real, 0.2, 0.3]"
       "tower_currentMultiplier g = (case Easy of Easy \<Rightarrow> 1.5 | Medium \<Rightarrow> 2.0 | Hard \<Rightarrow> 3.0) ^ length [0.1::real, 0.2, 0.3]"
    by blast
  from g(2,3) have "currentLevel g = 3" "tower_currentMultiplier g = 3.375"
    by (simp_all add: power3_eq_cube)
  with g(1) a' c show ?thesis by blast
qed

text \<open>
  Claim C7 asks that direction over with a target above 98 be rejected. The schema accepts
  any number from 1 to 99 and rejects over only from 99 on: the play over 98.5 with stake 10
  is accepted, the roll 99 wins, and the win chance \<open>(99 - 98.5) / 100\<close> pays 1960.
\<close>

theorem dice_fractional_target_accepted:
  "dicePlaySchema 10 98.5 Over \<and>
   snd (dicePlay ''u'' 10 98.5 Over 0.99 (ledgerOf ''u'' 100)) = DiceRolled 99 True 1960 98.5 Over \<and>
   getBalance (fst (dicePlay ''u'' 10 98.5 Over 0.99 (ledgerOf ''u'' 100))) ''u'' =
     Some \<lparr>amount = Num 2050, currency = ''USDT''\<rparr>"
  by (simp add: dicePlay_def dicePlaySchema_def eval_defs ledger_defs)

text \<open>
  Claim C8 asks that no operation make a balance negative. \<^verbatim>\<open>POST /api/bet\<close> does not
  check the sign of the bet amount: on a balance of 0, the coin flip bet of \<open>-5\<close> on heads
  passes the balance check, wins with payout \<open>-10\<close> and leaves the balance at \<open>-5\<close>.
\<close>

theorem bet_negative_amount_negative_balance:
  "snd (placeBet ''u'' ''coinflip'' (Num (- 5)) ''heads'' None 0.1 (ledgerOf ''u'' 0)) =
     BetPlaced (Flip Heads) Win (Num (- 10)) \<and>
   getBalance (fst (placeBet ''u'' ''coinflip'' (Num (- 5)) ''heads'' None 0.1 (ledgerOf ''u'' 0))) ''u'' =
     Some \<lparr>amount = Num (- 5), currency = ''USDT''\<rparr>"
  by (simp add: placeBet_def simulateCoinFlip_def coinSideName_def eval_defs ledger_defs)

text \<open>
  Claim C9, as amended. The balance operation \<^verbatim>\<open>GET /api/balance\<close> never answers with an
  error: when the ledger has no row for the user (\<open>getBalance\<close> is \<open>None\<close>, the
  \<^verbatim>\<open>undefined\<close> of the source) it creates the row with amount 0 in USDT and answers with
  it, otherwise it answers with the stored amount and currency. The other callers of
  \<open>getBalance\<close>, when the row is absent: \<^verbatim>\<open>POST /api/bet\<close> rejects any bet and Tower
  start any valid bet with \<open>InsufficientFunds\<close>; Crash start, Dice play and Mines start read
  the balance as 0 and so reject any valid bet with \<open>InsufficientFunds\<close>; none of them
  changes the state. A Tower, Crash or Mines cashout that pays adds the payout to 0 and
  creates the row with the payout in USDT.
\<close>

theorem balance_never_fails:
  "snd (balanceRoute uid st) =
     (case getBalance st uid of
        None \<Rightarrow> BalanceView (Num 0) ''USDT''
      | Some b \<Rightarrow> BalanceView (amount b) (currency b)) \<and>
   \<not> isError (snd (balanceRoute uid st)) \<and>
   getBalance (fst (balanceRoute uid st)) uid =
     (case getBalance st uid of
        None \<Rightarrow> Some \<lparr>amount = Num 0, currency = ''USDT''\<rparr>
      | Some b \<Rightarrow> Some b) \<and>
   (getBalance st uid = None \<longrightarrow>
      placeBet uid gameType amt betChoice choiceInt rnd st = (st, Error InsufficientFunds) \<and>
      (validBetAmount betAmount \<longrightarrow>
         towerStart uid betAmount st = (st, Error InsufficientFunds)) \<and>
      (validBetAmount betAmount \<and> crashGames st uid = None \<longrightarrow>
         crashStart uid betAmount u now st = (st, Error InsufficientFunds)) \<and>
      (dicePlaySchema betAmount target dir \<longrightarrow>
         dicePlay uid betAmount target dir rnd st = (st, Error InsufficientFunds)) \<and>
      (minesStartSchema betAmount mc \<and> minesGames st uid = None \<longrightarrow>
         minesStart uid betAmount mc rnds st = Some (st, Error InsufficientFunds)) \<and>
      (towerCashout uid st = (st1, TowerCashedOut p1 lvl m1) \<longrightarrow>
         getBalance st1 uid = Some \<lparr>amount = Num p1, currency = ''USDT''\<rparr>) \<and>
      (crashCashout uid now st = (st2, CrashCashedOut m2 p2 cp) \<longrightarrow>
         getBalance st2 uid = Some \<lparr>amount = Num p2, currency = ''USDT''\<rparr>) \<and>
      (minesCashout uid st = (st3, MinesCashedOut p3 m3) \<longrightarrow>
         getBalance st3 uid = Some \<lparr>amount = Num p3, currency = ''USDT''\<rparr>))"
proof (intro conjI impI)
  show "snd (balanceRoute uid st) =
     (case getBalance st uid of
        None \<Rightarrow> BalanceView (Num 0) ''USDT''
      | Some b \<Rightarrow> BalanceView (amount b) (currency b))"
    by (simp add: balanceRoute_def createBalance_def getBalance_def Let_def split: option.splits)
  then show "\<not> isError (snd (balanceRoute uid st))"
    by (simp split: option.splits)
  show "getBalance (fst (balanceRoute uid st)) uid =
     (case getBalance st uid of
        None \<Rightarrow> Some \<lparr>amount = Num 0, currency = ''USDT''\<rparr>
      | Some b \<Rightarrow> Some b)"
    by (simp add: balanceRoute_def createBalance_def getBalance_def Let_def split: option.splits)
next
  assume "getBalance st uid = None"
  then show "placeBet uid gameType amt betChoice choiceInt rnd st = (st, Error InsufficientFunds)"
    by (simp add: placeBet_def)
next
  assume "getBalance st uid = None" "validBetAmount betAmount"
  then show "towerStart uid betAmount st = (st, Error InsufficientFunds)"
    by (simp add: towerStart_def)
next
  assume "getBalance st uid = None" "validBetAmount betAmount \<and> crashGames st uid = None"
  then show "crashStart uid betAmount u now st = (st, Error InsufficientFunds)"
    by (simp add: crashStart_def amountOrZero_def validBetAmount_def)
next
  assume a: "getBalance st uid = None" and b: "dicePlaySchema betAmount target dir"
  from b have "0 < betAmount" by (simp add: dicePlaySchema_def validBetAmount_def)
  with a b show "dicePlay uid betAmount target dir rnd st = (st, Error InsufficientFunds)"
    by (simp add: dicePlay_def amountOrZero_def)
next
  assume a: "getBalance st uid = None"
    and b: "minesStartSchema betAmount mc \<and> minesGames st uid = None"
  from b have "0 < betAmount" by (simp add: minesStartSchema_def validBetAmount_def)
  with a b show "minesStart uid betAmount mc rnds st = Some (st, Error InsufficientFunds)"
    by (simp add: minesStart_def amountOrZero_def)
next
  assume "getBalance st uid = None" "towerCashout uid st = (st1, TowerCashedOut p1 lvl m1)"
  then show "getBalance st1 uid = Some \<lparr>amount = Num p1, currency = ''USDT''\<rparr>"
    by (auto simp: towerCashout_def Let_def ledger_defs split: option.splits if_splits)
next
  assume "getBalance st uid = None" "crashCashout uid now st = (st2, CrashCashedOut m2 p2 cp)"
  then show "getBalance st2 uid = Some \<lparr>amount = Num p2, currency = ''USDT''\<rparr>"
    by (auto simp: crashCashout_def Let_def ledger_defs split: option.splits if_splits)
next
  assume "getBalance st uid = None" "minesCashout uid st = (st3, MinesCashedOut p3 m3)"
  then show "getBalance st3 uid = Some \<lparr>amount = Num p3, currency = ''USDT''\<rparr>"
    by (auto simp: minesCashout_def Let_def ledger_defs split: option.splits if_splits)
qed

theorem balance_never_fails_witness:
  "getBalance emptyState ''u'' = None \<and>
   balanceRoute ''u'' emptyState =
     (emptyState\<lparr>balances := [''u'' \<mapsto> \<lparr>amount = Num 0, currency = ''USDT''\<rparr>]\<rparr>,
      BalanceView (Num 0) ''USDT'') \<and>
   placeBet ''u'' ''coinflip'' (Num 5) ''heads'' None 0.1 emptyState =
     (emptyState, Error InsufficientFunds) \<and>
   validBetAmount 10 \<and>
   towerStart ''u'' 10 emptyState = (emptyState, Error InsufficientFunds) \<and>
   crashStart ''u'' 10 0.5 0 emptyState = (emptyState, Error InsufficientFunds) \<and>
   dicePlaySchema 10 50 Over \<and>
   dicePlay ''u'' 10 50 Over 0.75 emptyState = (emptyState, Error InsufficientFunds) \<and>
   minesStartSchema 10 5 \<and>
   minesStart ''u'' 10 5 [0, 0.04, 0.08, 0.12, 0.16] emptyState =
     Some (emptyState, Error InsufficientFunds) \<and>
   getBalance (towerExample\<lparr>balances := Map.empty\<rparr>) ''u'' = None \<and>
   snd (towerCashout ''u'' (towerExample\<lparr>balances := Map.empty\<rparr>)) = TowerCashedOut 15 1 1.5 \<and>
   getBalance (fst (towerCashout ''u'' (towerExample\<lparr>balances := Map.empty\<rparr>))) ''u'' =
     Some \<lparr>amount = Num 15, currency = ''USDT''\<rparr> \<and>
   getBalance (crashExample\<lparr>balances := Map.empty\<rparr>) ''u'' = None \<and>
   snd (crashCashout ''u'' 50 (crashExample\<lparr>balances := Map.empty\<rparr>)) = CrashCashedOut 1.005 10.05 1.01 \<and>
   getBalance (fst (crashCashout ''u'' 50 (crashExample\<lparr>balances := Map.empty\<rparr>))) ''u'' =
     Some \<lparr>amount = Num 10.05, currency = ''USDT''\<rparr> \<and>
   getBalance (minesExample\<lparr>balances := Map.empty\<rparr>) ''u'' = None \<and>
   snd (minesCashout ''u'' (minesExample\<lparr>balances := Map.empty\<rparr>)) = MinesCashedOut 12.5 1.25 \<and>
   getBalance (fst (minesCashout ''u'' (minesExample\<lparr>balances := Map.empty\<rparr>))) ''u'' =
     Some \<lparr>amount = Num 12.5, currency = ''USDT''\<rparr>"
proof -
  let ?T = "(towerExample\<lparr>balances := Map.empty\<rparr>)"
  let ?C = "(crashExample\<lparr>balances := Map.empty\<rparr>)"
  let ?M = "(minesExample\<lparr>balances := Map.empty\<rparr>)"
  have e: "getBalance emptyState ''u'' = None" by (simp add: eval_defs ledger_defs)
  have v: "validBetAmount 10" "dicePlaySchema 10 50 Over" "minesStartSchema 10 5"
    "crashGames emptyState ''u'' = None" "minesGames emptyState ''u'' = None"
    by (simp_all add: dicePlaySchema_def minesStartSchema_def eval_defs)
  note E = balance_never_fails[where uid = "''u''" and st = emptyState
      and gameType = "''coinflip''" and amt = "Num 5" and betChoice = "''heads''"
      and choiceInt = None and rnd = "0.1" and betAmount = 10 and u = "0.5" and now = 0
      and mc = 5 and rnds = "[0, 0.04, 0.08, 0.12, 0.16]"]
  note D = balance_never_fails[where uid = "''u''" and st = emptyState
      and rnd = "0.75" and betAmount = 10 and target = 50 and dir = Over]
  from E e have r1: "snd (balanceRoute ''u'' emptyState) = BalanceView (Num 0) ''USDT''"
    and r2: "getBalance (fst (balanceRoute ''u'' emptyState)) ''u'' =
               Some \<lparr>amount = Num 0, currency = ''USDT''\<rparr>"
    by simp_all
  have r0: "fst (balanceRoute ''u'' emptyState) =
      emptyState\<lparr>balances := [''u'' \<mapsto> \<lparr>amount = Num 0, currency = ''USDT''\<rparr>]\<rparr>"
    by (simp add: balanceRoute_def eval_defs ledger_defs)
  from r0 r1 have r: "balanceRoute ''u'' emptyState =
     (emptyState\<lparr>balances := [''u'' \<mapsto> \<lparr>amount = Num 0, currency = ''USDT''\<rparr>]\<rparr>,
      BalanceView (Num 0) ''USDT'')"
    by (metis prod.collapse)
  from E e v have b1: "placeBet ''u'' ''coinflip'' (Num 5) ''heads'' None 0.1 emptyState =
     (emptyState, Error InsufficientFunds)"
    and b2: "towerStart ''u'' 10 emptyState = (emptyState, Error InsufficientFunds)"
    and b3: "crashStart ''u'' 10 0.5 0 emptyState = (emptyState, Error InsufficientFunds)"
    and b5: "minesStart ''u'' 10 5 [0, 0.04, 0.08, 0.12, 0.16] emptyState =
     Some (emptyState, Error InsufficientFunds)"
    by blast+
  from D e v have b4: "dicePlay ''u'' 10 50 Over 0.75 emptyState =
     (emptyState, Error InsufficientFunds)"
    by blast
  have t0: "getBalance ?T ''u'' = None" by (simp add: eval_defs ledger_defs)
  have t1: "snd (towerCashout ''u'' ?T) = TowerCashedOut 15 1 1.5"
    by (simp add: towerCashout_def eval_defs ledger_defs)
  then have "towerCashout ''u'' ?T = (fst (towerCashout ''u'' ?T), TowerCashedOut 15 1 1.5)"
    by (metis prod.collapse)
  with t0 balance_never_fails[where uid = "''u''" and st = ?T
      and ?st1.0 = "fst (towerCashout ''u'' ?T)" and ?p1.0 = 15 and lvl = 1 and ?m1.0 = "1.5"]
  have t2: "getBalance (fst (towerCashout ''u'' ?T)) ''u'' =
     Some \<lparr>amount = Num 15, currency = ''USDT''\<rparr>"
    by blast
  have c0: "getBalance ?C ''u'' = None" by (simp add: eval_defs ledger_defs)
  have c1: "snd (crashCashout ''u'' 50 ?C) = CrashCashedOut 1.005 10.05 1.01"
    by (simp add: crashCashout_def eval_defs ledger_defs)
  then have "crashCashout ''u'' 50 ?C =
      (fst (crashCashout ''u'' 50 ?C), CrashCashedOut 1.005 10.05 1.01)"
    by (metis prod.collapse)
  with c0 balance_never_fails[where uid = "''u''" and st = ?C and now = 50
      and ?st2.0 = "fst (crashCashout ''u'' 50 ?C)" and ?m2.0 = "1.005" and ?p2.0 = "10.05"
      and cp = "1.01"]
  have c2: "getBalance (fst (crashCashout ''u'' 50 ?C)) ''u'' =
     Some \<lparr>amount = Num 10.05, currency = ''USDT''\<rparr>"
    by blast
  have m0: "getBalance ?M ''u'' = None" by (simp add: eval_defs ledger_defs)
  have m1: "snd (minesCashout ''u'' ?M) = MinesCashedOut 12.5 1.25"
    by (simp add: minesCashout_def eval_defs ledger_defs)
  then have "minesCashout ''u'' ?M = (fst (minesCashout ''u'' ?M), MinesCashedOut 12.5 1.25)"
    by (metis prod.collapse)
  with m0 balance_never_fails[where uid = "''u''" and st = ?M
      and ?st3.0 = "fst (minesCashout ''u'' ?M)" and ?p3.0 = "12.5" and ?m3.0 = "1.25"]
  have m2: "getBalance (fst (minesCashout ''u'' ?M)) ''u'' =
     Some \<lparr>amount = Num 12.5, currency = ''USDT''\<rparr>"
    by blast
  from e r b1 v(1) b2 b3 v(2) b4 v(3) b5 t0 t1 t2 c0 c1 c2 m0 m1 m2 show ?thesis
    by (intro conjI)
qed

text \<open>
  Claim C9 as stated fails for the ledger's \<open>getBalance\<close>: for a user without a row it
  returns the absent value, not a balance of amount 0. The two differ for a caller:
  \<^verbatim>\<open>POST /api/bet\<close> refuses a bet of 0 when the row is absent and accepts it on a row of
  amount 0.
\<close>

theorem getBalance_absent_counterexample:
  "getBalance emptyState ''u'' = None \<and>
   snd (placeBet ''u'' ''coinflip'' (Num 0) ''heads'' None 0.1 emptyState) =
     Error InsufficientFunds \<and>
   snd (placeBet ''u'' ''coinflip'' (Num 0) ''heads'' None 0.1 (ledgerOf ''u'' 0)) =
     BetPlaced (Flip Heads) Win (Num 0)"
  by (simp add: placeBet_def simulateCoinFlip_def coinSideName_def eval_defs ledger_defs)

text \<open>
  Claim C10. In an active Mines session, a tile index between 0 and 24 that is not an
  integer and is not yet revealed passes the schema and never hits a mine, the mines being
  at integer positions: the reveal answers \<^verbatim>\<open>hitMine: false\<close>, pushes the index on the
  revealed tiles and sets the multiplier as for any safe reveal.
\<close>

theorem mines_fractional_tile_safe:
  assumes "minesStart uid b m rnds st0 = Some (st, MinesStarted gs m' b')"
    and "minesReveals uid ts st = (st', rs)"
    and "minesGames st' uid = Some g" and "mines_isActive g"
    and "0 \<le> t" and "t \<le> 24" and "\<not> isInteger t" and "t \<notin> set (revealedTiles g)"
  shows "minesRevealSchema t \<and>
         minesReveal uid t st' =
           (st'\<lparr>minesGames := (minesGames st')(uid \<mapsto>
                   g\<lparr>revealedTiles := revealedTiles g @ [t],
                     mines_currentMultiplier := (25 / (25 - m)) ^ (length (revealedTiles g) + 1)\<rparr>)\<rparr>,
            MinesSafe t (revealedTiles g @ [t]) ((25 / (25 - m)) ^ (length (revealedTiles g) + 1))
              (mines_betAmount g * (25 / (25 - m)) ^ (length (revealedTiles g) + 1)))"
proof -
  from minesStart_started[OF assms(1)] obtain ps where
    g0: "minesGames st uid =
            Some \<lparr>mines_betAmount = b, mineCount = m, gridSize = 25, minePositions = ps,
                  revealedTiles = [], mines_isActive = True, mines_currentMultiplier = 1\<rparr>"
    and ps: "list_all isInteger ps" by blast
  from minesReveals_fields[OF assms(2,3)] g0
  have f: "minePositions g = ps" "mineCount g = m" "gridSize g = 25" by auto
  from isInteger_member[OF ps assms(7)] f have nm: "t \<notin> set (minePositions g)" by simp
  have v: "minesRevealSchema t" using assms(5,6) by (simp add: minesRevealSchema_def)
  with assms(3,4,8) nm f show ?thesis
    by (simp add: minesReveal_def Let_def)
qed

theorem mines_fractional_tile_safe_witness:
  "snd (the (minesStart ''u'' 10 5 [0, 0.04, 0.08, 0.12, 0.16] (ledgerOf ''u'' 100)))
     = MinesStarted 25 5 10 \<and>
   (\<exists>g. minesGames
          (fst (minesReveals ''u'' [10]
             (fst (the (minesStart ''u'' 10 5 [0, 0.04, 0.08, 0.12, 0.16] (ledgerOf ''u'' 100))))))
          ''u'' = Some g \<and> mines_isActive g \<and> (0::real) \<le> 2.5 \<and> (2.5::real) \<le> 24 \<and>
        \<not> isInteger 2.5 \<and> 2.5 \<notin> set (revealedTiles g)) \<and>
   snd (minesReveal ''u'' 2.5
          (fst (minesReveals ''u'' [10]
             (fst (the (minesStart ''u'' 10 5 [0, 0.04, 0.08, 0.12, 0.16] (ledgerOf ''u'' 100)))))))
     = MinesSafe 2.5 [10, 2.5] 1.5625 15.625"
proof -
  let ?start = "minesStart ''u'' 10 5 [0, 0.04, 0.08, 0.12, 0.16] (ledgerOf ''u'' 100)"
  let ?st = "fst (the ?start)"
  let ?run = "minesReveals ''u'' [10] ?st"
  let ?g = "\<lparr>mines_betAmount = 10, mineCount = 5, gridSize = 25,
           minePositions = [0, 1, 2, 3, 4], revealedTiles = [10], mines_isActive = True,
           mines_currentMultiplier = 1.25\<rparr>"
  have s: "?start = Some (\<lparr>balances = [''u'' \<mapsto> \<lparr>amount = Num 90, currency = ''USDT''\<rparr>], bets = [],
        transactions = [\<lparr>tx_userId = ''u'', tx_type = BetTx, tx_amount = Num 10\<rparr>],
        towerGames = Map.empty, crashGames = Map.empty,
        minesGames = [''u'' \<mapsto> \<lparr>mines_betAmount = 10, mineCount = 5, gridSize = 25,
           minePositions = [0, 1, 2, 3, 4], revealedTiles = [], mines_isActive = True,
           mines_currentMultiplier = 1\<rparr>]\<rparr>, MinesStarted 25 5 10)"
    by (simp add: minesStart_def minesStartSchema_def eval_defs ledger_defs)
  then have a': "snd (the ?start) = MinesStarted 25 5 10" by simp
  from s have a: "?start = Some (?st, MinesStarted 25 5 10)" by simp
  have b: "?run = (fst ?run, snd ?run)" by (metis prod.collapse)
  have c: "minesGames (fst ?run) ''u'' = Some ?g"
    unfolding s by (simp add: minesReveal_def minesRevealSchema_def eval_defs)
  have d: "mines_isActive ?g" "(0::real) \<le> 2.5" "(2.5::real) \<le> 24" "\<not> isInteger 2.5"
    "2.5 \<notin> set (revealedTiles ?g)"
    by (simp_all add: isInteger_def)
  from mines_fractional_tile_safe[OF a b c d]
  have "snd (minesReveal ''u'' 2.5 (fst ?run)) = MinesSafe 2.5 [10, 2.5] 1.5625 15.625"
    by (simp add: power2_eq_square)
  with a' c d show ?thesis by blast
qed

end
